theory Spec2Isabelle
  imports Complex_Main "HOL-Library.AList"
begin

section \<open>JavaScript values and array helpers\<close>

text \<open>
  The dashboards are TypeScript. A JavaScript \<^verbatim>\<open>number\<close> that is only stored or compared
  is modelled as a \<^typ>\<open>real\<close>; a value of type \<^verbatim>\<open>any\<close> is a JSON tree. Strings are
  byte lists: the Chinese literals of the source are given by their UTF-8 bytes.
\<close>

type_synonym number = real

datatype json =
    JNull
  | JBool bool
  | JNum real
  | JStr string
  | JArr "json list"
  | JObj "(string \<times> json) list"

text \<open>
  \<^verbatim>\<open>xs.slice(-n)\<close> for \<open>n > 0\<close>: the start index is \<open>max (length xs - n) 0\<close>, so the whole
  array is returned when it has at most \<open>n\<close> elements, and its last \<open>n\<close> elements
  otherwise. The subtraction on \<^typ>\<open>nat\<close> is truncated, which is that maximum.
\<close>

definition slice_last :: "nat \<Rightarrow> 'a list \<Rightarrow> 'a list" where
  "slice_last n xs = drop (length xs - n) xs"

text \<open>
  \<^verbatim>\<open>a || b\<close> on a possibly missing string: the empty string and \<^verbatim>\<open>undefined\<close> are falsy,
  every other string is truthy.
\<close>

definition or_else :: "string option \<Rightarrow> string \<Rightarrow> string" where
  "or_else a b = (case a of None \<Rightarrow> b | Some m \<Rightarrow> if m = [] then b else m)"

section \<open>Control Tower: the dashboard store (dashboardStore)\<close>

record kpis =
  gdp :: number
  unemployment :: number
  inflation :: number
  policy_rate :: number
  credit_growth :: "number option"
  default_rate :: "number option"
  total_agents :: number

record MetricsData =
  timestamp :: number
  kpis :: kpis
  regional_data :: "json option"
  sectoral_data :: "json option"

datatype run_state = stopped | running | paused | stepping | rewinding

record SimulationStatus =
  state :: run_state
  current_time :: number
  speed :: number
  total_agents :: number
  elapsed_real_time :: number
  steps_per_second :: number
  memory_usage_mb :: number

record DashboardEvent =
  timestamp :: number
  event_type :: string
  actor_id :: "json option"
  payload :: json
  metadata :: "json option"

datatype time_range = Range1h | Range6h | Range24h | Range7d

record DashboardState =
  isConnected :: bool
  connectionError :: "string option"
  lastUpdateTime :: "number option"
  simulationStatus :: "SimulationStatus option"
  currentMetrics :: "MetricsData option"
  metricsHistory :: "MetricsData list"
  events :: "DashboardEvent list"
  scenarios :: "json list"
  snapshots :: "json list"
  selectedScenario :: "string option"
  autoRefresh :: bool
  refreshInterval :: number
  chartTimeRange :: time_range
  selectedMetrics :: "string list"

definition initialState_dashboard :: DashboardState where
  "initialState_dashboard =
     \<lparr> isConnected = False,
       connectionError = None,
       lastUpdateTime = None,
       simulationStatus = None,
       currentMetrics = None,
       metricsHistory = [],
       events = [],
       scenarios = [],
       snapshots = [],
       selectedScenario = None,
       autoRefresh = True,
       refreshInterval = 2000,
       chartTimeRange = Range1h,
       selectedMetrics = [''gdp'', ''unemployment'', ''inflation'', ''policy_rate''] \<rparr>"

definition setConnected_dashboard :: "bool \<Rightarrow> DashboardState \<Rightarrow> DashboardState" where
  "setConnected_dashboard flag s = s\<lparr>isConnected := flag\<rparr>"

definition setConnectionError_dashboard :: "string option \<Rightarrow> DashboardState \<Rightarrow> DashboardState" where
  "setConnectionError_dashboard err s = s\<lparr>connectionError := err\<rparr>"

text \<open>
  \<^verbatim>\<open>updateMetrics\<close> of the dashboard store. \<^verbatim>\<open>Date.now()\<close> is the first argument.
\<close>

definition updateMetrics_dashboard :: "number \<Rightarrow> MetricsData \<Rightarrow> DashboardState \<Rightarrow> DashboardState" where
  "updateMetrics_dashboard now metrics s =
     s\<lparr> currentMetrics := Some metrics,
        metricsHistory := slice_last 99 (metricsHistory s) @ [metrics],
        lastUpdateTime := Some now \<rparr>"

definition addEvent_dashboard :: "DashboardEvent \<Rightarrow> DashboardState \<Rightarrow> DashboardState" where
  "addEvent_dashboard event s = s\<lparr>events := slice_last 199 (events s) @ [event]\<rparr>"

text \<open>
  A run of the store: the samples arrive one after the other, each with the wall-clock
  time of its arrival.
\<close>

fun pushMetrics :: "(number \<times> MetricsData) list \<Rightarrow> DashboardState \<Rightarrow> DashboardState" where
  "pushMetrics [] s = s"
| "pushMetrics ((now, m) # ps) s = pushMetrics ps (updateMetrics_dashboard now m s)"

text \<open>A sample that carries the timestamp \<open>t\<close>; its indicator values play no role.\<close>

definition sample_at :: "number \<Rightarrow> MetricsData" where
  "sample_at t =
     \<lparr> MetricsData.timestamp = t,
       kpis = \<lparr> gdp = 0, unemployment = 0, inflation = 0, policy_rate = 0,
                credit_growth = None, default_rate = None, kpis.total_agents = 0 \<rparr>,
       regional_data = None,
       sectoral_data = None \<rparr>"

section \<open>World Viewer: the simulation store (simulationStore)\<close>

text \<open>
  An agent as the store holds it. The records come from parsed JSON and are not
  validated, and an entry of \<^verbatim>\<open>actors_delta\<close> names only what changed, so every field
  but the id may be absent; \<open>extra\<close> holds the agent-specific keys.
\<close>

record position =
  pos_x :: number
  pos_y :: number

record balance_sheet =
  total_assets :: number
  total_liabilities :: number
  net_worth :: number

record Agent =
  agent_id :: number
  agent_type :: "string option"
  status :: "string option"
  position :: "position option"
  balance_sheet :: "balance_sheet option"
  extra :: "(string \<times> json) list"

record showLayers =
  agents :: bool
  unemployment :: bool
  population :: bool
  firms :: bool
  banks :: bool

text \<open>The keys of \<^verbatim>\<open>showLayers\<close> (\<^verbatim>\<open>keyof SimulationState['showLayers']\<close>).\<close>

datatype layer = LayerAgents | LayerUnemployment | LayerPopulation | LayerFirms | LayerBanks

record camera =
  cam_x :: number
  cam_y :: number
  zoom :: number

record SimulationState =
  isConnected :: bool
  connectionError :: "string option"
  simulationStatus :: "SimulationStatus option"
  agents :: "Agent list"
  metrics :: "MetricsData option"
  events :: "json list"
  selectedAgent :: "Agent option"
  showLayers :: showLayers
  camera :: camera

definition initialState :: SimulationState where
  "initialState =
     \<lparr> isConnected = False,
       connectionError = None,
       simulationStatus = None,
       agents = [],
       metrics = None,
       events = [],
       selectedAgent = None,
       showLayers = \<lparr> showLayers.agents = True, unemployment = False, population = True,
                      firms = True, banks = True \<rparr>,
       camera = \<lparr> cam_x = 0, cam_y = 0, zoom = 1 \<rparr> \<rparr>"

definition setConnected :: "bool \<Rightarrow> SimulationState \<Rightarrow> SimulationState" where
  "setConnected flag s = s\<lparr>isConnected := flag\<rparr>"

definition setConnectionError :: "string option \<Rightarrow> SimulationState \<Rightarrow> SimulationState" where
  "setConnectionError err s = s\<lparr>connectionError := err\<rparr>"

definition updateSimulationStatus :: "SimulationStatus option \<Rightarrow> SimulationState \<Rightarrow> SimulationState" where
  "updateSimulationStatus st s = s\<lparr>simulationStatus := st\<rparr>"

text \<open>
  \<^verbatim>\<open>updateAgents\<close>: the list is stored as the registry; then, when an agent is selected,
  \<^verbatim>\<open>agents.find\<close> looks for the first element of the new list with the selected id and,
  when there is one, it becomes the selection.
\<close>

definition updateAgents :: "Agent list \<Rightarrow> SimulationState \<Rightarrow> SimulationState" where
  "updateAgents ags s =
     (let s1 = s\<lparr>agents := ags\<rparr> in
      case selectedAgent s1 of
        None \<Rightarrow> s1
      | Some sel \<Rightarrow>
          (case find (\<lambda>a. agent_id a = agent_id sel) ags of
             Some updatedAgent \<Rightarrow> s1\<lparr>selectedAgent := Some updatedAgent\<rparr>
           | None \<Rightarrow> s1))"

definition updateMetrics :: "MetricsData \<Rightarrow> SimulationState \<Rightarrow> SimulationState" where
  "updateMetrics m s = s\<lparr>metrics := Some m\<rparr>"

definition addEvent :: "json \<Rightarrow> SimulationState \<Rightarrow> SimulationState" where
  "addEvent event s = s\<lparr>events := slice_last 999 (events s) @ [event]\<rparr>"

definition selectAgent :: "Agent option \<Rightarrow> SimulationState \<Rightarrow> SimulationState" where
  "selectAgent a s = s\<lparr>selectedAgent := a\<rparr>"

fun get_layer :: "layer \<Rightarrow> showLayers \<Rightarrow> bool" where
  "get_layer LayerAgents l = showLayers.agents l"
| "get_layer LayerUnemployment l = showLayers.unemployment l"
| "get_layer LayerPopulation l = population l"
| "get_layer LayerFirms l = firms l"
| "get_layer LayerBanks l = banks l"

fun set_layer :: "layer \<Rightarrow> bool \<Rightarrow> showLayers \<Rightarrow> showLayers" where
  "set_layer LayerAgents b l = l\<lparr>showLayers.agents := b\<rparr>"
| "set_layer LayerUnemployment b l = l\<lparr>showLayers.unemployment := b\<rparr>"
| "set_layer LayerPopulation b l = l\<lparr>population := b\<rparr>"
| "set_layer LayerFirms b l = l\<lparr>firms := b\<rparr>"
| "set_layer LayerBanks b l = l\<lparr>banks := b\<rparr>"

text \<open>
  \<^verbatim>\<open>toggleLayer\<close>: \<^verbatim>\<open>{ ...state.showLayers, [layer]: !state.showLayers[layer] }\<close>.
\<close>

definition toggleLayer :: "layer \<Rightarrow> SimulationState \<Rightarrow> SimulationState" where
  "toggleLayer k s = s\<lparr>showLayers := set_layer k (\<not> get_layer k (showLayers s)) (showLayers s)\<rparr>"

text \<open>A \<^verbatim>\<open>Partial<camera>\<close>: each field may be absent.\<close>

record camera_patch =
  patch_x :: "number option"
  patch_y :: "number option"
  patch_zoom :: "number option"

definition updateCamera :: "camera_patch \<Rightarrow> SimulationState \<Rightarrow> SimulationState" where
  "updateCamera p s =
     s\<lparr>camera :=
         \<lparr> cam_x = (case patch_x p of Some v \<Rightarrow> v | None \<Rightarrow> cam_x (camera s)),
           cam_y = (case patch_y p of Some v \<Rightarrow> v | None \<Rightarrow> cam_y (camera s)),
           zoom = (case patch_zoom p of Some v \<Rightarrow> v | None \<Rightarrow> zoom (camera s)) \<rparr>\<rparr>"

definition reset :: "SimulationState \<Rightarrow> SimulationState" where
  "reset s = initialState"

section \<open>World Viewer: routing of inbound messages (useWebSocket.handleMessage)\<close>

text \<open>
  An inbound envelope \<^verbatim>\<open>{topic, data}\<close>. The \<^verbatim>\<open>switch\<close> on \<^verbatim>\<open>message.topic\<close> is the case
  distinction on the constructor, and each constructor carries \<^verbatim>\<open>message.data\<close> at the
  type its handler uses it at. For \<^verbatim>\<open>world.delta\<close> only \<^verbatim>\<open>data.actors_delta\<close> is read; it
  may be absent.
\<close>

datatype WebSocketMessage =
    MetricsUpdate MetricsData
  | WorldDelta "Agent list option"
  | EventsStream "(string \<times> json) list"
  | PolicyVote "(string \<times> json) list"
  | OtherTopic string json

fun topic :: "WebSocketMessage \<Rightarrow> string" where
  "topic (MetricsUpdate _) = ''metrics.update''"
| "topic (WorldDelta _) = ''world.delta''"
| "topic (EventsStream _) = ''events.stream''"
| "topic (PolicyVote _) = ''policy.vote''"
| "topic (OtherTopic t _) = t"

text \<open>
  \<^verbatim>\<open>if (message.data.actors_delta)\<close> holds for every array, the empty one too: an array
  is truthy in JavaScript. \<^verbatim>\<open>{ ...message.data, type: 'policy_vote' }\<close> overwrites the key
  \<^verbatim>\<open>type\<close> where it stands, or adds it at the end.
\<close>

fun handleMessage :: "WebSocketMessage \<Rightarrow> SimulationState \<Rightarrow> SimulationState" where
  "handleMessage (MetricsUpdate m) s = updateMetrics m s"
| "handleMessage (WorldDelta (Some actors_delta)) s = updateAgents actors_delta s"
| "handleMessage (WorldDelta None) s = s"
| "handleMessage (EventsStream d) s = addEvent (JObj d) s"
| "handleMessage (PolicyVote d) s =
     addEvent (JObj (AList.update ''type'' (JStr ''policy_vote'') d)) s"
| "handleMessage (OtherTopic t d) s = s"

section \<open>The browser's WebSocket, as far as the hooks use it\<close>

datatype ready_state = CONNECTING | OPEN | CLOSING | CLOSED

text \<open>The two outbound envelopes: \<^verbatim>\<open>{type: 'subscribe', topics}\<close> and \<^verbatim>\<open>{type: 'ping', timestamp}\<close>.\<close>

datatype envelope = Subscribe "string list" | Ping number

text \<open>A socket is its \<^verbatim>\<open>readyState\<close> and the frames handed to \<^verbatim>\<open>send\<close> so far, in order.\<close>

record socket =
  readyState :: ready_state
  sent :: "envelope list"

definition new_socket :: socket where
  "new_socket = \<lparr> readyState = CONNECTING, sent = [] \<rparr>"

text \<open>
  \<^verbatim>\<open>ws.send\<close> transmits on an open socket and discards the data on a closing or closed
  one. (On a connecting socket it throws; the hooks call it only from \<^verbatim>\<open>onopen\<close> or after
  testing for \<^verbatim>\<open>OPEN\<close>.) \<^verbatim>\<open>ws.close\<close> does nothing on a closing or closed socket and starts
  the closing handshake otherwise; the close event comes later.
\<close>

definition socket_send :: "envelope \<Rightarrow> socket \<Rightarrow> socket" where
  "socket_send e w = (if readyState w = OPEN then w\<lparr>sent := sent w @ [e]\<rparr> else w)"

definition socket_close :: "socket \<Rightarrow> socket" where
  "socket_close w =
     (if readyState w = CLOSING \<or> readyState w = CLOSED then w else w\<lparr>readyState := CLOSING\<rparr>)"

section \<open>World Viewer: the connection hook (useWebSocket)\<close>

datatype connection_state = StateConnecting | StateConnected | StateDisconnected

definition maxReconnectAttempts :: nat where
  "maxReconnectAttempts = 5"

definition reconnectDelay :: number where
  "reconnectDelay = 3000"

definition heartbeatPeriod :: number where
  "heartbeatPeriod = 30000"

definition subscribe_topics :: "string list" where
  "subscribe_topics = [''metrics.update'', ''world.delta'', ''events.stream'', ''policy.vote'']"

text \<open>The three error texts of the hook, as UTF-8 bytes.\<close>

definition err_max_retries :: string where
  "err_max_retries =
     [CHR 0xE8, CHR 0xBF, CHR 0x9E, CHR 0xE6, CHR 0x8E, CHR 0xA5, CHR 0xE5, CHR 0xA4,
      CHR 0xB1, CHR 0xE8, CHR 0xB4, CHR 0xA5, CHR 0xEF, CHR 0xBC, CHR 0x8C, CHR 0xE5,
      CHR 0xB7, CHR 0xB2, CHR 0xE8, CHR 0xBE, CHR 0xBE, CHR 0xE5, CHR 0x88, CHR 0xB0,
      CHR 0xE6, CHR 0x9C, CHR 0x80, CHR 0xE5, CHR 0xA4, CHR 0xA7, CHR 0xE9, CHR 0x87,
      CHR 0x8D, CHR 0xE8, CHR 0xAF, CHR 0x95, CHR 0xE6, CHR 0xAC, CHR 0xA1, CHR 0xE6,
      CHR 0x95, CHR 0xB0]"

definition err_socket :: string where
  "err_socket =
     [CHR 0x57, CHR 0x65, CHR 0x62, CHR 0x53, CHR 0x6F, CHR 0x63, CHR 0x6B, CHR 0x65,
      CHR 0x74, CHR 0x20, CHR 0xE8, CHR 0xBF, CHR 0x9E, CHR 0xE6, CHR 0x8E, CHR 0xA5,
      CHR 0xE9, CHR 0x94, CHR 0x99, CHR 0xE8, CHR 0xAF, CHR 0xAF]"

definition err_create :: string where
  "err_create =
     [CHR 0xE6, CHR 0x97, CHR 0xA0, CHR 0xE6, CHR 0xB3, CHR 0x95, CHR 0xE5, CHR 0x88,
      CHR 0x9B, CHR 0xE5, CHR 0xBB, CHR 0xBA, CHR 0x20, CHR 0x57, CHR 0x65, CHR 0x62,
      CHR 0x53, CHR 0x6F, CHR 0x63, CHR 0x6B, CHR 0x65, CHR 0x74, CHR 0x20, CHR 0xE8,
      CHR 0xBF, CHR 0x9E, CHR 0xE6, CHR 0x8E, CHR 0xA5]"

text \<open>
  The state of one mounted hook. \<open>sockets\<close> lists every \<^verbatim>\<open>WebSocket\<close> the hook has
  constructed, oldest first, and \<open>wsRef\<close> is the index of the one \<^verbatim>\<open>wsRef.current\<close> points
  to. \<open>timeouts\<close> is the browser's table of scheduled timeouts that have neither fired
  nor been cleared, each with its handle and delay; \<open>nextTimer\<close> is the next handle
  (handles are positive, hence truthy). \<open>heartbeatInterval\<close> is the period of the
  heartbeat interval while the effect has one installed. \<open>url_valid\<close> tells whether the
  constructor accepts the hook's \<^verbatim>\<open>url\<close>.
\<close>

record WebSocketHook =
  url_valid :: bool
  sockets :: "socket list"
  wsRef :: "nat option"
  connectionState :: connection_state
  reconnectTimeoutRef :: "nat option"
  timeouts :: "(nat \<times> number) list"
  nextTimer :: nat
  reconnectAttempts :: nat
  heartbeatInterval :: "number option"
  store :: SimulationState

definition hook_init :: "bool \<Rightarrow> WebSocketHook" where
  "hook_init ok =
     \<lparr> url_valid = ok,
       sockets = [],
       wsRef = None,
       connectionState = StateDisconnected,
       reconnectTimeoutRef = None,
       timeouts = [],
       nextTimer = 1,
       reconnectAttempts = 0,
       heartbeatInterval = None,
       store = initialState \<rparr>"

text \<open>\<^verbatim>\<open>wsRef.current?.readyState === WebSocket.OPEN\<close>\<close>

definition ws_is_open :: "WebSocketHook \<Rightarrow> bool" where
  "ws_is_open h =
     (case wsRef h of
        None \<Rightarrow> False
      | Some i \<Rightarrow> i < length (sockets h) \<and> readyState (sockets h ! i) = OPEN)"

text \<open>
  \<^verbatim>\<open>connect\<close>: nothing when the current socket is open; otherwise a new socket is
  constructed and stored in \<^verbatim>\<open>wsRef\<close>, or, when the constructor throws, the \<^verbatim>\<open>catch\<close>
  block runs.
\<close>

definition connect :: "WebSocketHook \<Rightarrow> WebSocketHook" where
  "connect h =
     (if ws_is_open h then h
      else
        let h1 = h\<lparr>connectionState := StateConnecting\<rparr> in
        if url_valid h1 then
          h1\<lparr>sockets := sockets h1 @ [new_socket], wsRef := Some (length (sockets h1))\<rparr>
        else
          h1\<lparr>store := setConnectionError (Some err_create) (store h1),
             connectionState := StateDisconnected\<rparr>)"

text \<open>\<^verbatim>\<open>ws.onopen\<close> of the socket with index \<open>i\<close>.\<close>

definition onopen :: "nat \<Rightarrow> WebSocketHook \<Rightarrow> WebSocketHook" where
  "onopen i h =
     h\<lparr>connectionState := StateConnected,
       store := setConnectionError None (setConnected True (store h)),
       reconnectAttempts := 0,
       sockets := (sockets h)[i := socket_send (Subscribe subscribe_topics) (sockets h ! i)]\<rparr>"

text \<open>
  \<^verbatim>\<open>ws.onmessage\<close>: the argument is the result of \<^verbatim>\<open>JSON.parse\<close>, \<open>None\<close> when it throws;
  the exception is caught and logged.
\<close>

definition onmessage :: "WebSocketMessage option \<Rightarrow> WebSocketHook \<Rightarrow> WebSocketHook" where
  "onmessage parsed h =
     (case parsed of
        None \<Rightarrow> h
      | Some msg \<Rightarrow> h\<lparr>store := handleMessage msg (store h)\<rparr>)"

text \<open>\<^verbatim>\<open>ws.onclose\<close>, with the bounded automatic reconnection.\<close>

definition onclose :: "WebSocketHook \<Rightarrow> WebSocketHook" where
  "onclose h =
     (let h1 = h\<lparr>connectionState := StateDisconnected, store := setConnected False (store h)\<rparr> in
      if reconnectAttempts h1 < maxReconnectAttempts then
        h1\<lparr>reconnectAttempts := reconnectAttempts h1 + 1,
           reconnectTimeoutRef := Some (nextTimer h1),
           timeouts := timeouts h1 @ [(nextTimer h1, reconnectDelay)],
           nextTimer := nextTimer h1 + 1\<rparr>
      else
        h1\<lparr>store := setConnectionError (Some err_max_retries) (store h1)\<rparr>)"

definition onerror :: "WebSocketHook \<Rightarrow> WebSocketHook" where
  "onerror h = h\<lparr>store := setConnectionError (Some err_socket) (store h)\<rparr>"

definition clearTimeout :: "nat \<Rightarrow> (nat \<times> number) list \<Rightarrow> (nat \<times> number) list" where
  "clearTimeout t ts = filter (\<lambda>p. fst p \<noteq> t) ts"

definition disconnect :: "WebSocketHook \<Rightarrow> WebSocketHook" where
  "disconnect h =
     (let h1 = (case reconnectTimeoutRef h of
                  Some t \<Rightarrow> h\<lparr>timeouts := clearTimeout t (timeouts h)\<rparr>
                | None \<Rightarrow> h);
          h2 = (case wsRef h1 of
                  Some i \<Rightarrow> h1\<lparr>sockets := (sockets h1)[i := socket_close (sockets h1 ! i)],
                               wsRef := None\<rparr>
                | None \<Rightarrow> h1)
      in h2\<lparr>connectionState := StateDisconnected, store := setConnected False (store h2)\<rparr>)"

definition sendMessage :: "envelope \<Rightarrow> WebSocketHook \<Rightarrow> WebSocketHook" where
  "sendMessage e h =
     (if ws_is_open h then
        (case wsRef h of
           Some i \<Rightarrow> h\<lparr>sockets := (sockets h)[i := socket_send e (sockets h ! i)]\<rparr>
         | None \<Rightarrow> h)
      else h)"

text \<open>
  The heartbeat effect depends on \<^verbatim>\<open>connectionState\<close>: its cleanup clears the interval and
  its body installs one, of 30000 ms, when the state is \<^verbatim>\<open>'connected'\<close>. It runs with the
  render that follows each event.
\<close>

definition heartbeat_effect :: "WebSocketHook \<Rightarrow> WebSocketHook" where
  "heartbeat_effect h =
     h\<lparr>heartbeatInterval :=
         (if connectionState h = StateConnected then Some heartbeatPeriod else None)\<rparr>"

text \<open>
  What can happen to a mounted hook. \<open>Connect\<close> is the mount effect (or a caller of the
  returned \<^verbatim>\<open>connect\<close>), \<open>Disconnect\<close> the unmount cleanup (or a caller of \<^verbatim>\<open>disconnect\<close>).
  The browser opens a socket only while it is connecting, closes it only once, and
  delivers frames on an open or closing socket; a timeout fires only while it is
  scheduled, and the heartbeat ticks, once per period, only while its interval is
  installed. An event that cannot happen in the current state leaves it unchanged.
\<close>

datatype hook_event =
    Connect
  | Disconnect
  | SocketOpened nat
  | SocketMessage nat "WebSocketMessage option"
  | SocketClosed nat
  | SocketError nat
  | TimeoutFired nat
  | HeartbeatTick number

definition set_readyState :: "nat \<Rightarrow> ready_state \<Rightarrow> WebSocketHook \<Rightarrow> WebSocketHook" where
  "set_readyState i r h = h\<lparr>sockets := (sockets h)[i := (sockets h ! i)\<lparr>readyState := r\<rparr>]\<rparr>"

fun handle :: "hook_event \<Rightarrow> WebSocketHook \<Rightarrow> WebSocketHook" where
  "handle Connect h = connect h"
| "handle Disconnect h = disconnect h"
| "handle (SocketOpened i) h =
     (if i < length (sockets h) \<and> readyState (sockets h ! i) = CONNECTING
      then onopen i (set_readyState i OPEN h) else h)"
| "handle (SocketMessage i parsed) h =
     (if i < length (sockets h) \<and> readyState (sockets h ! i) \<in> {OPEN, CLOSING}
      then onmessage parsed h else h)"
| "handle (SocketClosed i) h =
     (if i < length (sockets h) \<and> readyState (sockets h ! i) \<noteq> CLOSED
      then onclose (set_readyState i CLOSED h) else h)"
| "handle (SocketError i) h =
     (if i < length (sockets h) \<and> readyState (sockets h ! i) \<noteq> CLOSED
      then onerror h else h)"
| "handle (TimeoutFired t) h =
     (if t \<in> fst ` set (timeouts h)
      then connect (h\<lparr>timeouts := clearTimeout t (timeouts h)\<rparr>) else h)"
| "handle (HeartbeatTick now) h =
     (if heartbeatInterval h \<noteq> None then sendMessage (Ping now) h else h)"

definition step :: "hook_event \<Rightarrow> WebSocketHook \<Rightarrow> WebSocketHook" where
  "step e h = heartbeat_effect (handle e h)"

fun run :: "hook_event list \<Rightarrow> WebSocketHook \<Rightarrow> WebSocketHook" where
  "run [] h = h"
| "run (e # es) h = run es (step e h)"

text \<open>
  The shape of a socket's outbound log that the hook maintains: nothing was sent on a
  socket that never opened, and what was sent on one that did is the subscription
  followed by pings.
\<close>

fun is_ping :: "envelope \<Rightarrow> bool" where
  "is_ping (Ping t) = True"
| "is_ping (Subscribe ts) = False"

definition log_ok :: "socket \<Rightarrow> bool" where
  "log_ok w =
     (case sent w of
        [] \<Rightarrow> readyState w \<noteq> OPEN
      | e # es \<Rightarrow> readyState w \<noteq> CONNECTING \<and> e = Subscribe subscribe_topics \<and> list_all is_ping es)"

definition logs_ok :: "WebSocketHook \<Rightarrow> bool" where
  "logs_ok h = list_all log_ok (sockets h)"

text \<open>The heartbeat interval is installed exactly while the state is \<^verbatim>\<open>'connected'\<close>.\<close>

definition heartbeat_synced :: "WebSocketHook \<Rightarrow> bool" where
  "heartbeat_synced h =
     (heartbeatInterval h = (if connectionState h = StateConnected then Some heartbeatPeriod else None))"

text \<open>
  A server that is down: the first connection and four retries fail, and the fifth
  retry is on its way.
\<close>

definition five_failures :: "hook_event list" where
  "five_failures =
     [Connect, SocketClosed 0, TimeoutFired 1, SocketClosed 1, TimeoutFired 2, SocketClosed 2,
      TimeoutFired 3, SocketClosed 3, TimeoutFired 4, SocketClosed 4, TimeoutFired 5]"

section \<open>Control Tower: the connection effect (useDashboardData)\<close>

definition dashboard_topics :: "string list" where
  "dashboard_topics = [''metrics.update'', ''events.stream'', ''policy.vote'']"

definition dashboardReconnectDelay :: number where
  "dashboardReconnectDelay = 3000"

definition err_dashboard_socket :: string where
  "err_dashboard_socket =
     [CHR 0x57, CHR 0x65, CHR 0x62, CHR 0x53, CHR 0x6F, CHR 0x63, CHR 0x6B, CHR 0x65,
      CHR 0x74, CHR 0x20, CHR 0xE8, CHR 0xBF, CHR 0x9E, CHR 0xE6, CHR 0x8E, CHR 0xA5,
      CHR 0xE5, CHR 0xA4, CHR 0xB1, CHR 0xE8, CHR 0xB4, CHR 0xA5]"

text \<open>
  The effect keeps the socket in \<^verbatim>\<open>wsRef\<close> and nothing else: \<^verbatim>\<open>setTimeout\<close>'s handle is
  dropped, so the scheduled timeouts are known by their delays only. The URL is the
  constant \<^verbatim>\<open>'ws://localhost:8000/ws'\<close>, which the constructor accepts.
\<close>

record DashboardHook =
  sockets_dashboard :: "socket list"
  wsRef_dashboard :: "nat option"
  timeouts_dashboard :: "number list"
  store_dashboard :: DashboardState

definition dashboard_init :: DashboardHook where
  "dashboard_init =
     \<lparr> sockets_dashboard = [],
       wsRef_dashboard = None,
       timeouts_dashboard = [],
       store_dashboard = initialState_dashboard \<rparr>"

record policy_vote_data =
  vote_timestamp :: number
  member_id :: "json option"
  vote_data :: json

datatype DashboardMessage =
    DashMetricsUpdate MetricsData
  | DashEventsStream DashboardEvent
  | DashPolicyVote policy_vote_data
  | DashOtherTopic string json

fun handleWebSocketMessage :: "number \<Rightarrow> DashboardMessage \<Rightarrow> DashboardState \<Rightarrow> DashboardState" where
  "handleWebSocketMessage now (DashMetricsUpdate m) s = updateMetrics_dashboard now m s"
| "handleWebSocketMessage now (DashEventsStream e) s = addEvent_dashboard e s"
| "handleWebSocketMessage now (DashPolicyVote v) s =
     addEvent_dashboard
       \<lparr> DashboardEvent.timestamp = vote_timestamp v,
         event_type = ''policy_vote'',
         actor_id = member_id v,
         payload = vote_data v,
         metadata = None \<rparr> s"
| "handleWebSocketMessage now (DashOtherTopic t d) s = s"

definition connectWebSocket :: "DashboardHook \<Rightarrow> DashboardHook" where
  "connectWebSocket d =
     (if (case wsRef_dashboard d of
            None \<Rightarrow> False
          | Some i \<Rightarrow> i < length (sockets_dashboard d) \<and> readyState (sockets_dashboard d ! i) = OPEN)
      then d
      else d\<lparr>sockets_dashboard := sockets_dashboard d @ [new_socket],
             wsRef_dashboard := Some (length (sockets_dashboard d))\<rparr>)"

definition onopen_dashboard :: "nat \<Rightarrow> DashboardHook \<Rightarrow> DashboardHook" where
  "onopen_dashboard i d =
     d\<lparr>store_dashboard :=
         setConnectionError_dashboard None (setConnected_dashboard True (store_dashboard d)),
       sockets_dashboard :=
         (sockets_dashboard d)[i := socket_send (Subscribe dashboard_topics) (sockets_dashboard d ! i)]\<rparr>"

text \<open>\<^verbatim>\<open>ws.onclose\<close>: reconnect after three seconds, every time.\<close>

definition onclose_dashboard :: "DashboardHook \<Rightarrow> DashboardHook" where
  "onclose_dashboard d =
     d\<lparr>store_dashboard := setConnected_dashboard False (store_dashboard d),
       timeouts_dashboard := timeouts_dashboard d @ [dashboardReconnectDelay]\<rparr>"

definition onerror_dashboard :: "DashboardHook \<Rightarrow> DashboardHook" where
  "onerror_dashboard d =
     d\<lparr>store_dashboard := setConnectionError_dashboard (Some err_dashboard_socket) (store_dashboard d)\<rparr>"

text \<open>The cleanup of the effect, run when the component unmounts.\<close>

definition cleanup_dashboard :: "DashboardHook \<Rightarrow> DashboardHook" where
  "cleanup_dashboard d =
     (case wsRef_dashboard d of
        Some i \<Rightarrow> d\<lparr>sockets_dashboard := (sockets_dashboard d)[i := socket_close (sockets_dashboard d ! i)]\<rparr>
      | None \<Rightarrow> d)"

datatype dashboard_event =
    DashMount
  | DashUnmount
  | DashSocketOpened nat
  | DashSocketMessage nat number "DashboardMessage option"
  | DashSocketClosed nat
  | DashSocketError nat
  | DashTimeoutFired

definition set_readyState_dashboard :: "nat \<Rightarrow> ready_state \<Rightarrow> DashboardHook \<Rightarrow> DashboardHook" where
  "set_readyState_dashboard i r d =
     d\<lparr>sockets_dashboard := (sockets_dashboard d)[i := (sockets_dashboard d ! i)\<lparr>readyState := r\<rparr>]\<rparr>"

fun step_dashboard :: "dashboard_event \<Rightarrow> DashboardHook \<Rightarrow> DashboardHook" where
  "step_dashboard DashMount d = connectWebSocket d"
| "step_dashboard DashUnmount d = cleanup_dashboard d"
| "step_dashboard (DashSocketOpened i) d =
     (if i < length (sockets_dashboard d) \<and> readyState (sockets_dashboard d ! i) = CONNECTING
      then onopen_dashboard i (set_readyState_dashboard i OPEN d) else d)"
| "step_dashboard (DashSocketMessage i now parsed) d =
     (if i < length (sockets_dashboard d) \<and> readyState (sockets_dashboard d ! i) \<in> {OPEN, CLOSING}
      then (case parsed of
              None \<Rightarrow> d
            | Some msg \<Rightarrow> d\<lparr>store_dashboard := handleWebSocketMessage now msg (store_dashboard d)\<rparr>)
      else d)"
| "step_dashboard (DashSocketClosed i) d =
     (if i < length (sockets_dashboard d) \<and> readyState (sockets_dashboard d ! i) \<noteq> CLOSED
      then onclose_dashboard (set_readyState_dashboard i CLOSED d) else d)"
| "step_dashboard (DashSocketError i) d =
     (if i < length (sockets_dashboard d) \<and> readyState (sockets_dashboard d ! i) \<noteq> CLOSED
      then onerror_dashboard d else d)"
| "step_dashboard DashTimeoutFired d =
     (case timeouts_dashboard d of
        [] \<Rightarrow> d
      | t # ts \<Rightarrow> connectWebSocket (d\<lparr>timeouts_dashboard := ts\<rparr>))"

fun run_dashboard :: "dashboard_event list \<Rightarrow> DashboardHook \<Rightarrow> DashboardHook" where
  "run_dashboard [] d = d"
| "run_dashboard (e # es) d = run_dashboard es (step_dashboard e d)"

section \<open>World Viewer: control commands (useSimulationControl)\<close>

datatype command =
    Play "number option"
  | Pause
  | Step number
  | SetSpeed number
  | Jump number
  | Rewind number
  | Reset

text \<open>The request each command's \<^verbatim>\<open>mutationFn\<close> posts (\<^verbatim>\<open>simulationApi\<close>, base URL \<^verbatim>\<open>/api\<close>).\<close>

fun api_path :: "command \<Rightarrow> string" where
  "api_path (Play v) = ''/control/play''"
| "api_path Pause = ''/control/pause''"
| "api_path (Step n) = ''/control/step''"
| "api_path (SetSpeed v) = ''/control/speed''"
| "api_path (Jump t) = ''/control/jump''"
| "api_path (Rewind t) = ''/control/rewind''"
| "api_path Reset = ''/control/reset''"

text \<open>
  What a rejected request carries: the response interceptor throws an \<^verbatim>\<open>Error\<close> built from
  the server's text, or rethrows the transport error. \<open>message\<close> is its \<^verbatim>\<open>message\<close> field,
  \<open>None\<close> when the field is missing.
\<close>

datatype rejection = Rejection (message: "string option")

datatype api_outcome = Resolved | Rejected rejection

text \<open>The fallback text of each command's \<^verbatim>\<open>onError\<close>, as UTF-8 bytes.\<close>

fun fallback :: "command \<Rightarrow> string" where
  "fallback (Play v) =
     [CHR 0xE6, CHR 0x92, CHR 0xAD, CHR 0xE6, CHR 0x94, CHR 0xBE, CHR 0xE5, CHR 0xA4,
      CHR 0xB1, CHR 0xE8, CHR 0xB4, CHR 0xA5]"
| "fallback Pause =
     [CHR 0xE6, CHR 0x9A, CHR 0x82, CHR 0xE5, CHR 0x81, CHR 0x9C, CHR 0xE5, CHR 0xA4,
      CHR 0xB1, CHR 0xE8, CHR 0xB4, CHR 0xA5]"
| "fallback (Step n) =
     [CHR 0xE6, CHR 0xAD, CHR 0xA5, CHR 0xE8, CHR 0xBF, CHR 0x9B, CHR 0xE5, CHR 0xA4,
      CHR 0xB1, CHR 0xE8, CHR 0xB4, CHR 0xA5]"
| "fallback (SetSpeed v) =
     [CHR 0xE8, CHR 0xAE, CHR 0xBE, CHR 0xE7, CHR 0xBD, CHR 0xAE, CHR 0xE9, CHR 0x80,
      CHR 0x9F, CHR 0xE5, CHR 0xBA, CHR 0xA6, CHR 0xE5, CHR 0xA4, CHR 0xB1, CHR 0xE8,
      CHR 0xB4, CHR 0xA5]"
| "fallback (Jump t) =
     [CHR 0xE6, CHR 0x97, CHR 0xB6, CHR 0xE9, CHR 0x97, CHR 0xB4, CHR 0xE8, CHR 0xB7,
      CHR 0xB3, CHR 0xE8, CHR 0xBD, CHR 0xAC, CHR 0xE5, CHR 0xA4, CHR 0xB1, CHR 0xE8,
      CHR 0xB4, CHR 0xA5]"
| "fallback (Rewind t) =
     [CHR 0xE5, CHR 0x80, CHR 0x92, CHR 0xE5, CHR 0xB8, CHR 0xA6, CHR 0xE5, CHR 0xA4,
      CHR 0xB1, CHR 0xE8, CHR 0xB4, CHR 0xA5]"
| "fallback Reset =
     [CHR 0xE9, CHR 0x87, CHR 0x8D, CHR 0xE7, CHR 0xBD, CHR 0xAE, CHR 0xE5, CHR 0xA4,
      CHR 0xB1, CHR 0xE8, CHR 0xB4, CHR 0xA5]"

text \<open>\<^verbatim>\<open>onError: (error) => setConnectionError(error.message || fallback)\<close>\<close>

definition onError :: "command \<Rightarrow> rejection \<Rightarrow> SimulationState \<Rightarrow> SimulationState" where
  "onError cmd err s = setConnectionError (Some (or_else (message err) (fallback cmd))) s"

text \<open>
  One command from issue to settlement. \<^verbatim>\<open>mutation.mutate\<close> starts the request and
  returns; when the request settles, the library calls \<^verbatim>\<open>onSuccess\<close> or \<^verbatim>\<open>onError\<close> and
  keeps a rejection to itself. The state is the store together with the query keys
  invalidated so far.
\<close>

definition mutate ::
  "command \<Rightarrow> api_outcome \<Rightarrow> SimulationState \<times> string list list \<Rightarrow> SimulationState \<times> string list list" where
  "mutate cmd outcome st =
     (case outcome of
        Resolved \<Rightarrow> (fst st, snd st @ [[''simulation-status'']])
      | Rejected err \<Rightarrow> (onError cmd err (fst st), snd st))"

section \<open>World Viewer: the time bar (TimeBar.handleJump)\<close>

record TimeBar =
  jumpTarget :: string
  showJumpInput :: bool

text \<open>
  \<^verbatim>\<open>handleJump\<close>. \<open>parseInt\<close> stands for the built-in: \<open>None\<close> is \<^verbatim>\<open>NaN\<close>. The result is the
  commands handed to \<^verbatim>\<open>useSimulationControl\<close> and the component's new state.
\<close>

definition handleJump ::
  "(string \<Rightarrow> number option) \<Rightarrow> SimulationStatus option \<Rightarrow> TimeBar \<Rightarrow> command list \<times> TimeBar" where
  "handleJump parseInt simStatus tb =
     (let currentTime = (case simStatus of None \<Rightarrow> 0 | Some st \<Rightarrow> current_time st) in
      case parseInt (jumpTarget tb) of
        None \<Rightarrow> ([], tb)
      | Some target \<Rightarrow>
          if target \<ge> 0 then
            (if target < currentTime then [Rewind target] else [Jump target],
             tb\<lparr>jumpTarget := [], showJumpInput := False\<rparr>)
          else ([], tb))"

section \<open>World Viewer: the camera (WorldViewer.setupCameraControls)\<close>

text \<open>
  The PixiJS container the camera moves, and the store. The wheel handler reads the
  container's scale and writes the store; the camera effect copies the store's camera
  to the container with the next render.
\<close>

record Viewer =
  container_x :: number
  container_y :: number
  scale_x :: number
  viewer_store :: SimulationState

definition onWheel :: "number \<Rightarrow> Viewer \<Rightarrow> Viewer" where
  "onWheel deltaY v =
     (let zoomFactor = (if deltaY > 0 then 0.9 else 1.1);
          currentZoom = scale_x v;
          newZoom = max 0.1 (min 5 (currentZoom * zoomFactor))
      in v\<lparr>viewer_store :=
             updateCamera \<lparr> patch_x = None, patch_y = None, patch_zoom = Some newZoom \<rparr>
               (viewer_store v)\<rparr>)"

definition applyCamera :: "Viewer \<Rightarrow> Viewer" where
  "applyCamera v =
     v\<lparr>container_x := cam_x (camera (viewer_store v)),
       container_y := cam_y (camera (viewer_store v)),
       scale_x := zoom (camera (viewer_store v))\<rparr>"

definition wheel :: "number \<Rightarrow> Viewer \<Rightarrow> Viewer" where
  "wheel deltaY v = applyCamera (onWheel deltaY v)"

fun wheels :: "number list \<Rightarrow> Viewer \<Rightarrow> Viewer" where
  "wheels [] v = v"
| "wheels (d # ds) v = wheels ds (wheel d v)"

section \<open>Scenarios\<close>

text \<open>
  The entities of the upsert scenario, with the store's field names (\<^verbatim>\<open>agent_id\<close>,
  \<^verbatim>\<open>agent_type\<close>): the firm as first reported, the delta that names its new status only,
  the merged record, and a second entity that the delta does not mention.
\<close>

definition firm_active :: Agent where
  "firm_active =
     \<lparr> agent_id = 5, agent_type = Some ''firm'', status = Some ''active'',
       position = None, balance_sheet = None, extra = [] \<rparr>"

definition firm_delta :: Agent where
  "firm_delta =
     \<lparr> agent_id = 5, agent_type = None, status = Some ''bankrupt'',
       position = None, balance_sheet = None, extra = [] \<rparr>"

definition firm_bankrupt :: Agent where
  "firm_bankrupt =
     \<lparr> agent_id = 5, agent_type = Some ''firm'', status = Some ''bankrupt'',
       position = None, balance_sheet = None, extra = [] \<rparr>"

definition bystander :: Agent where
  "bystander =
     \<lparr> agent_id = 7, agent_type = Some ''person'', status = Some ''active'',
       position = None, balance_sheet = None, extra = [] \<rparr>"

text \<open>A status report whose logical clock reads \<open>c\<close>.\<close>

definition status_at :: "number \<Rightarrow> SimulationStatus" where
  "status_at c =
     \<lparr> state = paused, current_time = c, speed = 1, total_agents = 0,
       elapsed_real_time = 0, steps_per_second = 0, memory_usage_mb = 0 \<rparr>"

section \<open>Properties of the dashboard store\<close>

lemma updateMetrics_dashboard_history:
  "metricsHistory (updateMetrics_dashboard now m s) = slice_last 100 (metricsHistory s @ [m])"
  by (simp add: updateMetrics_dashboard_def slice_last_def)

lemma slice_last_append_absorb:
  "slice_last n (slice_last n xs @ ys) = slice_last n (xs @ ys)"
proof (cases "n \<le> length xs")
  case True
  then show ?thesis by (simp add: slice_last_def add.commute)
next
  case False
  then show ?thesis by (simp add: slice_last_def)
qed

lemma pushMetrics_history_gen:
  "metricsHistory (pushMetrics ps s) =
     (if ps = [] then metricsHistory s else slice_last 100 (metricsHistory s @ map snd ps))"
proof (induction ps arbitrary: s)
  case Nil
  show ?case by simp
next
  case (Cons p ps)
  obtain now m where p: "p = (now, m)" by (cases p)
  show ?case
  proof (cases "ps = []")
    case True
    with p show ?thesis by (simp add: updateMetrics_dashboard_history)
  next
    case False
    with p Cons.IH [of "updateMetrics_dashboard now m s"] show ?thesis
      by (simp add: updateMetrics_dashboard_history slice_last_append_absorb)
  qed
qed

lemma pushMetrics_history_initial:
  "metricsHistory (pushMetrics ps initialState_dashboard) = slice_last 100 (map snd ps)"
  by (simp add: pushMetrics_history_gen initialState_dashboard_def slice_last_def)

text \<open>
  Claim C2. Whatever samples are pushed into the initially empty dashboard store, and
  at whatever times, \<open>metricsHistory\<close> never has more than 100 entries and consists of
  the last samples pushed, in the order of their arrival (all of them while there are at
  most 100). In particular, after the 150 samples with timestamps 1 to 150 the store
  holds exactly the samples with timestamps 51 to 150, in that order.
\<close>

theorem metricsHistory_bounded_in_arrival_order:
  "length (metricsHistory (pushMetrics ps initialState_dashboard)) \<le> 100
   \<and> metricsHistory (pushMetrics ps initialState_dashboard) = drop (length ps - 100) (map snd ps)
   \<and> metricsHistory
        (pushMetrics (map (\<lambda>n. (now n, sample_at (real n))) [1..<151]) initialState_dashboard)
      = map (\<lambda>n. sample_at (real n)) [51..<151]"
proof -
  have h: "metricsHistory (pushMetrics qs initialState_dashboard) = drop (length qs - 100) (map snd qs)"
    for qs :: "(number \<times> MetricsData) list"
    by (simp add: pushMetrics_history_initial slice_last_def)
  have "drop 50 (map (\<lambda>n. sample_at (real n)) [1..<151]) = map (\<lambda>n. sample_at (real n)) [51..<151]"
    by (simp add: drop_map)
  then show ?thesis
    by (simp add: h o_def)
qed

section \<open>Properties of the simulation store\<close>

lemma get_layer_set_layer:
  "get_layer j (set_layer k b l) = (if j = k then b else get_layer j l)"
  by (cases k; cases j) simp_all

lemma set_layer_twice: "set_layer k b (set_layer k c l) = set_layer k b l"
  by (cases k) simp_all

lemma set_layer_get_layer: "set_layer k (get_layer k l) l = l"
  by (cases k) simp_all

text \<open>
  Claim C10. For every layer key \<open>k\<close> and every store, \<open>toggleLayer k\<close> applied twice gives
  the store back; applied once, it negates the flag \<open>k\<close> of \<open>showLayers\<close>, leaves every
  other flag as it was, and leaves every other field of the store as it was.
\<close>

theorem toggleLayer_involution:
  "toggleLayer k (toggleLayer k s) = s
   \<and> get_layer j (showLayers (toggleLayer k s))
       = (if j = k then \<not> get_layer j (showLayers s) else get_layer j (showLayers s))
   \<and> isConnected (toggleLayer k s) = isConnected s
   \<and> connectionError (toggleLayer k s) = connectionError s
   \<and> simulationStatus (toggleLayer k s) = simulationStatus s
   \<and> agents (toggleLayer k s) = agents s
   \<and> metrics (toggleLayer k s) = metrics s
   \<and> events (toggleLayer k s) = events s
   \<and> selectedAgent (toggleLayer k s) = selectedAgent s
   \<and> camera (toggleLayer k s) = camera s"
  by (simp add: toggleLayer_def get_layer_set_layer set_layer_twice set_layer_get_layer)

lemma updateAgents_agents: "agents (updateAgents ags s) = ags"
  by (simp add: updateAgents_def Let_def split: option.splits)

lemma find_agent_Some:
  "a \<in> set ags \<Longrightarrow> agent_id a = k \<Longrightarrow> \<exists>u. find (\<lambda>a. agent_id a = k) ags = Some u \<and> u \<in> set ags \<and> agent_id u = k"
  by (induction ags) auto

lemma find_agent_sound:
  "find (\<lambda>a. agent_id a = k) ags = Some u \<Longrightarrow> u \<in> set ags \<and> agent_id u = k"
  by (induction ags) (auto split: if_splits)

text \<open>
  Claim C9. When an agents update is applied while an agent is selected whose id occurs
  in the incoming list, the selection becomes the record of that list with the selected
  id (the first one, as \<^verbatim>\<open>find\<close> returns it). Hence after every update a selected agent
  whose id is present in the registry is itself an element of the registry: the
  selection is never a stale copy.
\<close>

theorem updateAgents_refreshes_selection:
  "(selectedAgent s = Some sel \<and> agent_id sel \<in> agent_id ` set ags \<longrightarrow>
      (\<exists>u. selectedAgent (updateAgents ags s) = Some u
           \<and> find (\<lambda>a. agent_id a = agent_id sel) ags = Some u
           \<and> u \<in> set ags \<and> agent_id u = agent_id sel))
   \<and> (\<forall>b. selectedAgent (updateAgents ags s) = Some b
           \<and> agent_id b \<in> agent_id ` set (agents (updateAgents ags s))
         \<longrightarrow> b \<in> set (agents (updateAgents ags s)))"
proof (intro conjI impI allI)
  assume a: "selectedAgent s = Some sel \<and> agent_id sel \<in> agent_id ` set ags"
  then obtain a0 where "a0 \<in> set ags" "agent_id a0 = agent_id sel" by auto
  from find_agent_Some [OF this] obtain u where
    u: "find (\<lambda>a. agent_id a = agent_id sel) ags = Some u" "u \<in> set ags" "agent_id u = agent_id sel"
    by blast
  with a show "\<exists>u. selectedAgent (updateAgents ags s) = Some u
           \<and> find (\<lambda>a. agent_id a = agent_id sel) ags = Some u
           \<and> u \<in> set ags \<and> agent_id u = agent_id sel"
    by (simp add: updateAgents_def)
next
  fix b
  assume b: "selectedAgent (updateAgents ags s) = Some b
           \<and> agent_id b \<in> agent_id ` set (agents (updateAgents ags s))"
  show "b \<in> set (agents (updateAgents ags s))"
  proof (cases "selectedAgent s")
    case None
    with b show ?thesis by (simp add: updateAgents_def)
  next
    case (Some sel')
    show ?thesis
    proof (cases "find (\<lambda>a. agent_id a = agent_id sel') ags")
      case None
      with Some b have "b = sel'" by (simp add: updateAgents_def)
      moreover from None have "agent_id sel' \<notin> agent_id ` set ags"
        by (auto simp: find_None_iff)
      ultimately show ?thesis using b by (simp add: updateAgents_agents)
    next
      case (Some u)
      with \<open>selectedAgent s = Some sel'\<close> b have "b = u" by (simp add: updateAgents_def)
      with find_agent_sound [OF Some] show ?thesis by (simp add: updateAgents_agents)
    qed
  qed
qed

theorem updateAgents_refreshes_selection_witness:
  "selectedAgent (initialState\<lparr>agents := [firm_active], selectedAgent := Some firm_active\<rparr>) = Some firm_active
   \<and> agent_id firm_active \<in> agent_id ` set [bystander, firm_delta]
   \<and> selectedAgent (updateAgents [bystander, firm_delta]
        (initialState\<lparr>agents := [firm_active], selectedAgent := Some firm_active\<rparr>)) = Some firm_delta"
  using updateAgents_refreshes_selection
    [of "initialState\<lparr>agents := [firm_active], selectedAgent := Some firm_active\<rparr>"
        firm_active "[bystander, firm_delta]"]
  by (simp add: firm_active_def firm_delta_def bystander_def)

section \<open>Properties of the message routing\<close>

lemma world_delta_is_replacement:
  "agents (handleMessage (WorldDelta (Some ds)) s) = ds"
  by (simp add: updateAgents_agents)

text \<open>
  Claim C1. The upsert scenario on the code: the registry holds the active firm 5 and a
  second entity, and a \<^verbatim>\<open>world.delta\<close> message arrives whose \<^verbatim>\<open>actors_delta\<close> is the single
  entry \<open>{id: 5, status: bankrupt}\<close>. Afterwards the registry is that entry alone: the
  firm has lost its type, so the merged record is not in the registry, and the entity
  the delta did not mention is gone.
\<close>

theorem world_delta_replaces_registry:
  "agents (handleMessage (WorldDelta (Some [firm_delta])) (initialState\<lparr>agents := [firm_active, bystander]\<rparr>))
     = [firm_delta]
   \<and> firm_bankrupt \<notin> set (agents (handleMessage (WorldDelta (Some [firm_delta]))
                                 (initialState\<lparr>agents := [firm_active, bystander]\<rparr>)))
   \<and> bystander \<notin> set (agents (handleMessage (WorldDelta (Some [firm_delta]))
                                 (initialState\<lparr>agents := [firm_active, bystander]\<rparr>)))
   \<and> agent_type firm_delta = None"
  by (simp add: updateAgents_agents firm_delta_def firm_bankrupt_def bystander_def)

section \<open>Properties of the control commands\<close>

lemma fallback_nonempty: "fallback cmd \<noteq> []"
  by (cases cmd) simp_all

text \<open>
  Claim C5. For every control command, when its request is rejected the command settles
  with a store in which only \<open>connectionError\<close> has changed: it is the rejection's
  message when that is a non-empty string and the command's fallback text otherwise.
  The fallback text is not empty, so the error is never the empty string, and it is set.
  Nothing is thrown: the result is a store, and the invalidated queries are as before.
\<close>

theorem command_rejection_sets_error_only:
  "mutate cmd (Rejected err) (s, qs)
     = (s\<lparr>connectionError :=
            Some (case message err of
                    Some m \<Rightarrow> if m \<noteq> [] then m else fallback cmd
                  | None \<Rightarrow> fallback cmd)\<rparr>, qs)
   \<and> fallback cmd \<noteq> []
   \<and> connectionError (fst (mutate cmd (Rejected err) (s, qs))) \<noteq> Some []
   \<and> connectionError (fst (mutate cmd (Rejected err) (s, qs))) \<noteq> None"
  using fallback_nonempty [of cmd]
  by (simp add: mutate_def onError_def setConnectionError_def or_else_def split: option.splits)

section \<open>Properties of the time bar\<close>

text \<open>
  Claim C6. When the jump is confirmed with a target that parses to a number \<open>t \<ge> 0\<close>
  while the latest status reports the logical time \<open>c\<close>, exactly one command is issued:
  rewind to \<open>t\<close> (the request to \<^verbatim>\<open>/control/rewind\<close>) when \<open>t < c\<close>, and jump to \<open>t\<close> (the request
  to \<^verbatim>\<open>/control/jump\<close>) when \<open>t \<ge> c\<close>. In particular the target 50 at time 120 rewinds and
  the target 200 at time 120 jumps.
\<close>

theorem handleJump_rewind_or_jump:
  "(parseInt (jumpTarget tb) = Some t \<and> 0 \<le> t \<longrightarrow>
      fst (handleJump parseInt (Some st) tb)
        = (if t < current_time st then [Rewind t] else [Jump t])
      \<and> map api_path (fst (handleJump parseInt (Some st) tb))
        = (if t < current_time st then [''/control/rewind''] else [''/control/jump'']))
   \<and> fst (handleJump (\<lambda>x. Some 50) (Some (status_at 120)) tb) = [Rewind 50]
   \<and> fst (handleJump (\<lambda>x. Some 200) (Some (status_at 120)) tb) = [Jump 200]"
  by (simp add: handleJump_def status_at_def)

theorem handleJump_rewind_or_jump_witness:
  "(\<lambda>x. Some 120) (jumpTarget \<lparr>jumpTarget = ''120'', showJumpInput = True\<rparr>) = Some (120::real)
   \<and> (0::real) \<le> 120
   \<and> fst (handleJump (\<lambda>x. Some 120) (Some (status_at 120)) \<lparr>jumpTarget = ''120'', showJumpInput = True\<rparr>)
       = [Jump 120]"
  using handleJump_rewind_or_jump
    [of "\<lambda>x. Some 120" "\<lparr>jumpTarget = ''120'', showJumpInput = True\<rparr>" 120 "status_at 120"]
  by (simp add: status_at_def)

section \<open>Properties of the camera\<close>

lemma wheel_zoom_range:
  "0.1 \<le> zoom (camera (viewer_store (wheel d v))) \<and> zoom (camera (viewer_store (wheel d v))) \<le> 5"
  by (simp add: wheel_def applyCamera_def onWheel_def updateCamera_def Let_def)

text \<open>
  Claim C7. Starting from a camera zoom in \<open>[0.1, 5]\<close>, after any finite sequence of wheel
  events, whatever their \<^verbatim>\<open>deltaY\<close>, the camera zoom is in \<open>[0.1, 5]\<close>. Each event multiplies
  the current zoom by 0.9 or by 1.1 and clamps the product. Only the order of the
  numbers matters to the clamp, so the bound does not depend on rounding.
\<close>

theorem zoom_stays_in_range:
  "0.1 \<le> zoom (camera (viewer_store v)) \<and> zoom (camera (viewer_store v)) \<le> 5 \<Longrightarrow>
   0.1 \<le> zoom (camera (viewer_store (wheels ds v))) \<and> zoom (camera (viewer_store (wheels ds v))) \<le> 5"
proof (induction ds arbitrary: v)
  case Nil
  then show ?case by simp
next
  case (Cons d ds)
  from Cons.IH [OF wheel_zoom_range [of d v]] show ?case by simp
qed

theorem zoom_stays_in_range_witness:
  "0.1 \<le> zoom (camera (viewer_store
            \<lparr>container_x = 0, container_y = 0, scale_x = 1, viewer_store = initialState\<rparr>))
   \<and> zoom (camera (viewer_store
            \<lparr>container_x = 0, container_y = 0, scale_x = 1, viewer_store = initialState\<rparr>)) \<le> 5
   \<and> 0.1 \<le> zoom (camera (viewer_store (wheels [-100, -100, 3]
            \<lparr>container_x = 0, container_y = 0, scale_x = 1, viewer_store = initialState\<rparr>)))
   \<and> zoom (camera (viewer_store (wheels [-100, -100, 3]
            \<lparr>container_x = 0, container_y = 0, scale_x = 1, viewer_store = initialState\<rparr>))) \<le> 5"
  using zoom_stays_in_range
    [of "\<lparr>container_x = 0, container_y = 0, scale_x = 1, viewer_store = initialState\<rparr>"
        "[-100, -100, 3]"]
  by (simp add: initialState_def)

section \<open>Properties of the connection hook\<close>

lemma run_append: "run (es @ fs) h = run fs (run es h)"
  by (induction es arbitrary: h) simp_all

lemma list_all_update: "list_all P xs \<Longrightarrow> P y \<Longrightarrow> list_all P (xs[i := y])"
  by (induction xs arbitrary: i) (auto split: nat.splits)

subsection \<open>The reconnect counter\<close>

lemma reconnectAttempts_heartbeat_effect [simp]:
  "reconnectAttempts (heartbeat_effect h) = reconnectAttempts h"
  by (simp add: heartbeat_effect_def)

lemma reconnectAttempts_connect [simp]: "reconnectAttempts (connect h) = reconnectAttempts h"
  by (simp add: connect_def Let_def)

lemma reconnectAttempts_disconnect [simp]: "reconnectAttempts (disconnect h) = reconnectAttempts h"
  by (simp add: disconnect_def Let_def split: option.splits)

lemma reconnectAttempts_sendMessage [simp]: "reconnectAttempts (sendMessage e h) = reconnectAttempts h"
  by (simp add: sendMessage_def split: option.splits)

lemma reconnectAttempts_onopen [simp]: "reconnectAttempts (onopen i h) = 0"
  by (simp add: onopen_def)

lemma reconnectAttempts_onmessage [simp]: "reconnectAttempts (onmessage m h) = reconnectAttempts h"
  by (simp add: onmessage_def split: option.splits)

lemma reconnectAttempts_onerror [simp]: "reconnectAttempts (onerror h) = reconnectAttempts h"
  by (simp add: onerror_def)

lemma reconnectAttempts_set_readyState [simp]:
  "reconnectAttempts (set_readyState i r h) = reconnectAttempts h"
  by (simp add: set_readyState_def)

lemma reconnectAttempts_onclose:
  "reconnectAttempts (onclose h) =
     (if reconnectAttempts h < maxReconnectAttempts then reconnectAttempts h + 1 else reconnectAttempts h)"
  by (simp add: onclose_def Let_def)

lemma reconnectAttempts_step_le:
  "reconnectAttempts h \<le> maxReconnectAttempts \<Longrightarrow> reconnectAttempts (step e h) \<le> maxReconnectAttempts"
  by (cases e) (simp_all add: step_def reconnectAttempts_onclose)

lemma reconnectAttempts_run_le:
  "reconnectAttempts h \<le> maxReconnectAttempts \<Longrightarrow> reconnectAttempts (run es h) \<le> maxReconnectAttempts"
  by (induction es arbitrary: h) (simp_all add: reconnectAttempts_step_le)

lemma timeouts_onclose:
  "timeouts (onclose h) =
     (if reconnectAttempts h < maxReconnectAttempts
      then timeouts h @ [(nextTimer h, reconnectDelay)] else timeouts h)"
  by (simp add: onclose_def Let_def)

lemma connectionError_onclose:
  "connectionError (store (onclose h)) =
     (if reconnectAttempts h < maxReconnectAttempts
      then connectionError (store h) else Some err_max_retries)"
  by (simp add: onclose_def Let_def setConnected_def setConnectionError_def)

text \<open>
  Claim C4. In the connection state machine of \<^verbatim>\<open>useWebSocket\<close>: the reconnect counter is
  0 right after every successful open; a close of a live socket while the counter is
  below the bound adds exactly 1 to it and schedules one reconnect; a close once the
  counter has reached the bound leaves it there, schedules nothing and sets the error
  that says the retries are used up. No other event changes the counter, and in every
  run it stays at most 5, the bound.
\<close>

theorem reconnect_counter:
  "(i < length (sockets h) \<and> readyState (sockets h ! i) = CONNECTING \<longrightarrow>
      reconnectAttempts (step (SocketOpened i) h) = 0)
   \<and> (i < length (sockets h) \<and> readyState (sockets h ! i) \<noteq> CLOSED
        \<and> reconnectAttempts h < maxReconnectAttempts \<longrightarrow>
      reconnectAttempts (step (SocketClosed i) h) = reconnectAttempts h + 1
      \<and> timeouts (step (SocketClosed i) h) = timeouts h @ [(nextTimer h, reconnectDelay)])
   \<and> (i < length (sockets h) \<and> readyState (sockets h ! i) \<noteq> CLOSED
        \<and> reconnectAttempts h \<ge> maxReconnectAttempts \<longrightarrow>
      reconnectAttempts (step (SocketClosed i) h) = reconnectAttempts h
      \<and> timeouts (step (SocketClosed i) h) = timeouts h
      \<and> connectionError (store (step (SocketClosed i) h)) = Some err_max_retries)
   \<and> ((\<forall>j. e \<noteq> SocketOpened j \<and> e \<noteq> SocketClosed j) \<longrightarrow>
      reconnectAttempts (step e h) = reconnectAttempts h)
   \<and> reconnectAttempts (run es (hook_init ok)) \<le> maxReconnectAttempts
   \<and> maxReconnectAttempts = 5"
proof -
  have hb: "timeouts (heartbeat_effect g) = timeouts g" "store (heartbeat_effect g) = store g" for g
    by (simp_all add: heartbeat_effect_def)
  have sr: "timeouts (set_readyState i r g) = timeouts g" "store (set_readyState i r g) = store g"
     "nextTimer (set_readyState i r g) = nextTimer g" for r g
    by (simp_all add: set_readyState_def)
  have 1: "i < length (sockets h) \<and> readyState (sockets h ! i) = CONNECTING \<longrightarrow>
      reconnectAttempts (step (SocketOpened i) h) = 0"
    by (simp add: step_def)
  have 2: "i < length (sockets h) \<and> readyState (sockets h ! i) \<noteq> CLOSED
        \<and> reconnectAttempts h < maxReconnectAttempts \<longrightarrow>
      reconnectAttempts (step (SocketClosed i) h) = reconnectAttempts h + 1
      \<and> timeouts (step (SocketClosed i) h) = timeouts h @ [(nextTimer h, reconnectDelay)]"
    by (simp add: step_def reconnectAttempts_onclose timeouts_onclose hb sr)
  have 3: "i < length (sockets h) \<and> readyState (sockets h ! i) \<noteq> CLOSED
        \<and> reconnectAttempts h \<ge> maxReconnectAttempts \<longrightarrow>
      reconnectAttempts (step (SocketClosed i) h) = reconnectAttempts h
      \<and> timeouts (step (SocketClosed i) h) = timeouts h
      \<and> connectionError (store (step (SocketClosed i) h)) = Some err_max_retries"
    by (simp add: step_def reconnectAttempts_onclose timeouts_onclose connectionError_onclose hb sr)
  have 4: "(\<forall>j. e \<noteq> SocketOpened j \<and> e \<noteq> SocketClosed j) \<longrightarrow>
      reconnectAttempts (step e h) = reconnectAttempts h"
    by (cases e) (simp_all add: step_def)
  have 5: "reconnectAttempts (run es (hook_init ok)) \<le> maxReconnectAttempts"
    by (rule reconnectAttempts_run_le) (simp add: hook_init_def)
  from 1 2 3 4 5 show ?thesis by (simp add: maxReconnectAttempts_def)
qed

lemmas hook_eval =
  step_def hook_init_def connect_def ws_is_open_def new_socket_def heartbeat_effect_def
  maxReconnectAttempts_def Let_def onclose_def onopen_def set_readyState_def clearTimeout_def
  socket_send_def setConnected_def setConnectionError_def

theorem reconnect_counter_witness:
  "0 < length (sockets (run [Connect] (hook_init True)))
   \<and> readyState (sockets (run [Connect] (hook_init True)) ! 0) = CONNECTING
   \<and> reconnectAttempts (run [Connect] (hook_init True)) < maxReconnectAttempts
   \<and> reconnectAttempts (step (SocketOpened 0) (run [Connect] (hook_init True))) = 0
   \<and> reconnectAttempts (step (SocketClosed 0) (run [Connect] (hook_init True))) = 1
   \<and> timeouts (step (SocketClosed 0) (run [Connect] (hook_init True))) = [(1, reconnectDelay)]
   \<and> 5 < length (sockets (run five_failures (hook_init True)))
   \<and> readyState (sockets (run five_failures (hook_init True)) ! 5) \<noteq> CLOSED
   \<and> reconnectAttempts (run five_failures (hook_init True)) \<ge> maxReconnectAttempts
   \<and> reconnectAttempts (step (SocketClosed 5) (run five_failures (hook_init True))) = 5
   \<and> timeouts (step (SocketClosed 5) (run five_failures (hook_init True))) = []
   \<and> connectionError (store (step (SocketClosed 5) (run five_failures (hook_init True))))
       = Some err_max_retries"
proof -
  let ?h = "run [Connect] (hook_init True)"
  let ?g = "run five_failures (hook_init True)"
  have h: "0 < length (sockets ?h)" "readyState (sockets ?h ! 0) = CONNECTING"
    "reconnectAttempts ?h = 0" "timeouts ?h = []" "nextTimer ?h = 1"
    by (simp_all add: hook_eval)
  have g: "5 < length (sockets ?g)" "readyState (sockets ?g ! 5) = CONNECTING"
    "reconnectAttempts ?g = 5" "timeouts ?g = []"
    by (simp_all add: five_failures_def hook_eval nth_append)
  have m: "maxReconnectAttempts = 5" by (simp add: maxReconnectAttempts_def)
  from reconnect_counter [of 0 ?h Connect "[]" True] h m
  have 1: "reconnectAttempts (step (SocketOpened 0) ?h) = 0"
    "reconnectAttempts (step (SocketClosed 0) ?h) = 1"
    "timeouts (step (SocketClosed 0) ?h) = [(1, reconnectDelay)]"
    by simp_all
  from reconnect_counter [of 5 ?g Connect "[]" True] g m
  have 2: "reconnectAttempts (step (SocketClosed 5) ?g) = 5"
    "timeouts (step (SocketClosed 5) ?g) = []"
    "connectionError (store (step (SocketClosed 5) ?g)) = Some err_max_retries"
    by simp_all
  from h g m 1 2 show ?thesis by simp
qed


subsection \<open>The outbound log\<close>

lemma log_ok_new_socket: "log_ok new_socket"
  by (simp add: log_ok_def new_socket_def)

lemma log_ok_socket_close: "log_ok w \<Longrightarrow> log_ok (socket_close w)"
  by (auto simp: log_ok_def socket_close_def split: list.splits)

lemma log_ok_closed: "log_ok w \<Longrightarrow> log_ok (w\<lparr>readyState := CLOSED\<rparr>)"
  by (auto simp: log_ok_def split: list.splits)

lemma log_ok_opened:
  "log_ok w \<Longrightarrow> readyState w = CONNECTING \<Longrightarrow>
   sent (socket_send (Subscribe subscribe_topics) (w\<lparr>readyState := OPEN\<rparr>)) = [Subscribe subscribe_topics]
   \<and> log_ok (socket_send (Subscribe subscribe_topics) (w\<lparr>readyState := OPEN\<rparr>))"
  by (auto simp: log_ok_def socket_send_def split: list.splits)

lemma log_ok_ping: "log_ok w \<Longrightarrow> log_ok (socket_send (Ping t) w)"
  by (auto simp: log_ok_def socket_send_def split: list.splits)

lemma log_ok_shape:
  "log_ok w \<Longrightarrow>
   (sent w = [] \<and> readyState w \<noteq> OPEN)
   \<or> (readyState w \<noteq> CONNECTING \<and> sent w = Subscribe subscribe_topics # filter is_ping (tl (sent w)))"
  by (auto simp: log_ok_def list_all_iff filter_id_conv split: list.splits)

lemma logs_ok_connect: "logs_ok h \<Longrightarrow> logs_ok (connect h)"
  by (simp add: logs_ok_def connect_def Let_def log_ok_new_socket)

lemma logs_ok_nth: "logs_ok h \<Longrightarrow> i < length (sockets h) \<Longrightarrow> log_ok (sockets h ! i)"
  by (simp add: logs_ok_def list_all_length)

lemma logs_ok_update:
  "logs_ok h \<Longrightarrow> (i < length (sockets h) \<Longrightarrow> log_ok y) \<Longrightarrow> logs_ok (h\<lparr>sockets := (sockets h)[i := y]\<rparr>)"
  by (cases "i < length (sockets h)") (simp_all add: logs_ok_def list_all_update list_update_beyond)

lemma logs_ok_disconnect: "logs_ok h \<Longrightarrow> logs_ok (disconnect h)"
proof -
  assume a: "logs_ok h"
  have t: "logs_ok (g\<lparr>timeouts := ts\<rparr>) = logs_ok g" for g ts by (simp add: logs_ok_def)
  have c: "logs_ok (g\<lparr>connectionState := c, store := st\<rparr>) = logs_ok g" for g c st
    by (simp add: logs_ok_def)
  have w: "logs_ok g \<Longrightarrow> logs_ok (g\<lparr>sockets := (sockets g)[i := socket_close (sockets g ! i)], wsRef := None\<rparr>)"
    for g i
    using logs_ok_update [of g i "socket_close (sockets g ! i)"]
    by (simp add: logs_ok_def log_ok_socket_close list_all_length)
  from a show ?thesis
    by (auto simp: disconnect_def Let_def t c w split: option.splits)
qed

lemma logs_ok_sendMessage_ping: "logs_ok h \<Longrightarrow> logs_ok (sendMessage (Ping t) h)"
  using logs_ok_update
  by (auto simp: sendMessage_def ws_is_open_def log_ok_ping logs_ok_nth split: option.splits)

lemma logs_ok_step: "logs_ok h \<Longrightarrow> logs_ok (step e h)"
proof -
  assume a: "logs_ok h"
  have hb: "logs_ok (heartbeat_effect g) = logs_ok g" for g
    by (simp add: logs_ok_def heartbeat_effect_def)
  have "logs_ok (handle e h)"
  proof (cases e)
    case Connect
    with a show ?thesis by (simp add: logs_ok_connect)
  next
    case Disconnect
    with a show ?thesis by (simp add: logs_ok_disconnect)
  next
    case (SocketOpened i)
    show ?thesis
    proof (cases "i < length (sockets h) \<and> readyState (sockets h ! i) = CONNECTING")
      case True
      then have "log_ok (socket_send (Subscribe subscribe_topics) ((sockets h ! i)\<lparr>readyState := OPEN\<rparr>))"
        using log_ok_opened [of "sockets h ! i"] logs_ok_nth [OF a] by simp
      with a True SocketOpened show ?thesis
        by (simp add: onopen_def set_readyState_def logs_ok_def list_all_update)
    next
      case False
      with a SocketOpened show ?thesis by auto
    qed
  next
    case (SocketMessage i m)
    with a show ?thesis by (simp add: onmessage_def logs_ok_def split: option.splits)
  next
    case (SocketClosed i)
    have "logs_ok (set_readyState i CLOSED h)"
      unfolding set_readyState_def
      using logs_ok_update [OF a, of i "(sockets h ! i)\<lparr>readyState := CLOSED\<rparr>"]
        log_ok_closed logs_ok_nth [OF a] by simp
    moreover have "logs_ok (onclose g) = logs_ok g" for g
      by (simp add: onclose_def Let_def logs_ok_def)
    ultimately show ?thesis using a SocketClosed by simp
  next
    case (SocketError i)
    with a show ?thesis by (simp add: onerror_def logs_ok_def)
  next
    case (TimeoutFired t)
    have "logs_ok (h\<lparr>timeouts := ts\<rparr>)" for ts using a by (simp add: logs_ok_def)
    with a TimeoutFired show ?thesis by (simp add: logs_ok_connect)
  next
    case (HeartbeatTick now)
    with a show ?thesis by (simp add: logs_ok_sendMessage_ping)
  qed
  then show ?thesis by (simp add: step_def hb)
qed

lemma logs_ok_run: "logs_ok h \<Longrightarrow> logs_ok (run es h)"
  by (induction es arbitrary: h) (simp_all add: logs_ok_step)

lemma logs_ok_init: "logs_ok (hook_init ok)"
  by (simp add: logs_ok_def hook_init_def)

subsection \<open>The heartbeat\<close>

lemma heartbeat_synced_step: "heartbeat_synced (step e h)"
  by (simp add: heartbeat_synced_def step_def heartbeat_effect_def)

lemma heartbeat_synced_run: "heartbeat_synced h \<Longrightarrow> heartbeat_synced (run es h)"
  by (induction es arbitrary: h) (simp_all add: heartbeat_synced_step)

lemma heartbeat_synced_init: "heartbeat_synced (hook_init ok)"
  by (simp add: heartbeat_synced_def hook_init_def)

lemma sockets_heartbeat_effect [simp]: "sockets (heartbeat_effect h) = sockets h"
  by (simp add: heartbeat_effect_def)

lemma tick_sockets:
  "heartbeat_synced h \<Longrightarrow>
   sockets (step (HeartbeatTick now) h) =
     (case wsRef h of
        Some i \<Rightarrow>
          if connectionState h = StateConnected \<and> i < length (sockets h) \<and> readyState (sockets h ! i) = OPEN
          then (sockets h)[i := (sockets h ! i)\<lparr>sent := sent (sockets h ! i) @ [Ping now]\<rparr>]
          else sockets h
      | None \<Rightarrow> sockets h)"
  by (auto simp: step_def heartbeat_synced_def sendMessage_def ws_is_open_def socket_send_def
      split: option.splits if_splits)

lemma pings_socket_close [simp]: "filter is_ping (sent (socket_close w)) = filter is_ping (sent w)"
  by (simp add: socket_close_def)

lemma other_events_send_no_ping:
  assumes "\<And>now. e \<noteq> HeartbeatTick now" "i < length (sockets h)"
  shows "filter is_ping (sent (sockets (step e h) ! i)) = filter is_ping (sent (sockets h ! i))"
proof -
  have upd: "filter is_ping (sent y) = filter is_ping (sent (xs ! j)) \<Longrightarrow>
      filter is_ping (sent (xs[j := y] ! i)) = filter is_ping (sent (xs ! i))" for xs j and y :: socket
    by (cases "i = j"; cases "j < length xs") (simp_all add: list_update_beyond)
  have "filter is_ping (sent (sockets (handle e h) ! i)) = filter is_ping (sent (sockets h ! i))"
  proof (cases e)
    case Connect
    with assms show ?thesis by (simp add: connect_def Let_def nth_append)
  next
    case Disconnect
    with assms show ?thesis
      by (auto simp: disconnect_def Let_def upd split: option.splits)
  next
    case (SocketOpened j)
    with assms show ?thesis
      by (simp add: onopen_def set_readyState_def socket_send_def upd)
  next
    case (SocketMessage j m)
    with assms show ?thesis by (simp add: onmessage_def split: option.splits)
  next
    case (SocketClosed j)
    with assms show ?thesis
      by (simp add: onclose_def Let_def set_readyState_def upd)
  next
    case (SocketError j)
    with assms show ?thesis by (simp add: onerror_def)
  next
    case (TimeoutFired t)
    with assms show ?thesis by (simp add: connect_def Let_def nth_append ws_is_open_def)
  next
    case (HeartbeatTick now)
    with assms(1) [of now] show ?thesis by simp
  qed
  then show ?thesis by (simp add: step_def)
qed

subsection \<open>What was sent stays sent\<close>

lemma update_keeps_nonempty:
  "i < length xs \<Longrightarrow> sent (xs ! i) \<noteq> [] \<Longrightarrow> (sent (xs ! j) \<noteq> [] \<Longrightarrow> sent y \<noteq> []) \<Longrightarrow>
   sent (xs[j := y] ! i) \<noteq> []"
  by (cases "i = j") simp_all

lemma step_keeps_log:
  assumes "i < length (sockets h)" "sent (sockets h ! i) \<noteq> []"
  shows "i < length (sockets (step e h)) \<and> sent (sockets (step e h) ! i) \<noteq> []"
proof -
  have "i < length (sockets (handle e h)) \<and> sent (sockets (handle e h) ! i) \<noteq> []"
  proof (cases e)
    case Connect
    with assms show ?thesis by (simp add: connect_def Let_def nth_append)
  next
    case Disconnect
    with assms show ?thesis
      by (auto simp: disconnect_def Let_def socket_close_def update_keeps_nonempty split: option.splits)
  next
    case (SocketOpened j)
    with assms show ?thesis
      by (simp add: onopen_def set_readyState_def socket_send_def update_keeps_nonempty)
  next
    case (SocketMessage j m)
    with assms show ?thesis by (simp add: onmessage_def split: option.splits)
  next
    case (SocketClosed j)
    with assms show ?thesis
      by (simp add: onclose_def Let_def set_readyState_def update_keeps_nonempty)
  next
    case (SocketError j)
    with assms show ?thesis by (simp add: onerror_def)
  next
    case (TimeoutFired t)
    with assms show ?thesis by (simp add: connect_def Let_def nth_append ws_is_open_def)
  next
    case (HeartbeatTick now)
    with assms show ?thesis
      by (auto simp: sendMessage_def socket_send_def update_keeps_nonempty split: option.splits)
  qed
  then show ?thesis by (simp add: step_def)
qed

lemma run_keeps_log:
  "i < length (sockets h) \<Longrightarrow> sent (sockets h ! i) \<noteq> [] \<Longrightarrow>
   i < length (sockets (run fs h)) \<and> sent (sockets (run fs h) ! i) \<noteq> []"
proof (induction fs arbitrary: h)
  case Nil
  then show ?case by simp
next
  case (Cons e fs)
  from step_keeps_log [OF Cons.prems, of e] Cons.IH [of "step e h"] show ?case by simp
qed

lemma log_ok_one_subscribe:
  "log_ok w \<Longrightarrow> sent w \<noteq> [] \<Longrightarrow>
   hd (sent w) = Subscribe subscribe_topics \<and> filter (\<lambda>x. \<not> is_ping x) (sent w) = [Subscribe subscribe_topics]"
  by (auto simp: log_ok_def list_all_iff filter_empty_conv split: list.splits)

text \<open>
  Claim C8. In every state \<open>h\<close> that a run of the hook reaches: the outbound log of every
  socket is empty, on a socket that is not open, or it is the subscribe envelope followed
  by pings only; the open event of a connecting socket makes its log exactly the
  subscribe envelope, and whatever happens afterwards that log starts with the
  subscribe envelope and holds no second envelope that is not a ping; a heartbeat tick
  appends one ping to the current socket when the state is connected and that socket is
  open, and changes no socket otherwise; no other event adds a ping to any socket; and
  the heartbeat interval, of 30000 ms, is installed exactly while the state is connected.
\<close>

theorem subscribe_once_before_pings:
  assumes "h = run es (hook_init ok)"
  shows
  "(\<forall>w \<in> set (sockets h).
       (sent w = [] \<and> readyState w \<noteq> OPEN)
     \<or> (readyState w \<noteq> CONNECTING
         \<and> sent w = Subscribe subscribe_topics # filter is_ping (tl (sent w))))
   \<and> (i < length (sockets h) \<and> readyState (sockets h ! i) = CONNECTING \<longrightarrow>
        sent (sockets (step (SocketOpened i) h) ! i) = [Subscribe subscribe_topics]
        \<and> hd (sent (sockets (run fs (step (SocketOpened i) h)) ! i)) = Subscribe subscribe_topics
        \<and> filter (\<lambda>x. \<not> is_ping x) (sent (sockets (run fs (step (SocketOpened i) h)) ! i))
            = [Subscribe subscribe_topics])
   \<and> sockets (step (HeartbeatTick now) h) =
       (case wsRef h of
          Some k \<Rightarrow>
            if connectionState h = StateConnected \<and> k < length (sockets h)
               \<and> readyState (sockets h ! k) = OPEN
            then (sockets h)[k := (sockets h ! k)\<lparr>sent := sent (sockets h ! k) @ [Ping now]\<rparr>]
            else sockets h
        | None \<Rightarrow> sockets h)
   \<and> ((\<forall>t. e \<noteq> HeartbeatTick t) \<and> i < length (sockets h) \<longrightarrow>
        filter is_ping (sent (sockets (step e h) ! i)) = filter is_ping (sent (sockets h ! i)))
   \<and> heartbeatInterval h = (if connectionState h = StateConnected then Some 30000 else None)"
proof -
  have ok: "logs_ok h"
    unfolding assms by (rule logs_ok_run) (rule logs_ok_init)
  have sy: "heartbeat_synced h"
    unfolding assms by (rule heartbeat_synced_run) (rule heartbeat_synced_init)
  have 1: "\<forall>w \<in> set (sockets h).
       (sent w = [] \<and> readyState w \<noteq> OPEN)
     \<or> (readyState w \<noteq> CONNECTING
         \<and> sent w = Subscribe subscribe_topics # filter is_ping (tl (sent w)))"
    using ok log_ok_shape by (auto simp: logs_ok_def list_all_iff)
  have 2: "sent (sockets (step (SocketOpened i) h) ! i) = [Subscribe subscribe_topics]
        \<and> hd (sent (sockets (run fs (step (SocketOpened i) h)) ! i)) = Subscribe subscribe_topics
        \<and> filter (\<lambda>x. \<not> is_ping x) (sent (sockets (run fs (step (SocketOpened i) h)) ! i))
            = [Subscribe subscribe_topics]"
    if c: "i < length (sockets h) \<and> readyState (sockets h ! i) = CONNECTING"
  proof -
    let ?g = "step (SocketOpened i) h"
    from c have a: "sent (sockets ?g ! i) = [Subscribe subscribe_topics]"
      using log_ok_opened [of "sockets h ! i"] logs_ok_nth [OF ok, of i]
      by (simp add: step_def onopen_def set_readyState_def)
    from c have l: "i < length (sockets ?g)"
      by (simp add: step_def onopen_def set_readyState_def)
    from a have n: "sent (sockets ?g ! i) \<noteq> []" by simp
    have "logs_ok (run fs ?g)"
      by (rule logs_ok_run) (rule logs_ok_step [OF ok])
    with run_keeps_log [OF l n, of fs] log_ok_one_subscribe [of "sockets (run fs ?g) ! i"] a
    show ?thesis by (simp add: logs_ok_nth)
  qed
  have 4: "(\<forall>t. e \<noteq> HeartbeatTick t) \<and> i < length (sockets h) \<longrightarrow>
        filter is_ping (sent (sockets (step e h) ! i)) = filter is_ping (sent (sockets h ! i))"
    using other_events_send_no_ping [of e i h] by blast
  have 5: "heartbeatInterval h = (if connectionState h = StateConnected then Some 30000 else None)"
    using sy by (simp add: heartbeat_synced_def heartbeatPeriod_def)
  from 1 2 tick_sockets [OF sy, of now] 4 5 show ?thesis by simp
qed

theorem subscribe_once_before_pings_witness:
  "0 < length (sockets (run [Connect] (hook_init True)))
   \<and> readyState (sockets (run [Connect] (hook_init True)) ! 0) = CONNECTING
   \<and> sent (sockets (step (SocketOpened 0) (run [Connect] (hook_init True))) ! 0)
       = [Subscribe subscribe_topics]
   \<and> map sent (sockets (run [Connect, SocketOpened 0, HeartbeatTick 30000, HeartbeatTick 60000]
                         (hook_init True)))
       = [[Subscribe subscribe_topics, Ping 30000, Ping 60000]]
   \<and> map sent (sockets (run [Connect, HeartbeatTick 30000, SocketOpened 0, SocketClosed 0,
                              HeartbeatTick 60000] (hook_init True)))
       = [[Subscribe subscribe_topics]]"
  using subscribe_once_before_pings
    [of "run [Connect] (hook_init True)" "[Connect]" True 0 "[]" 1 Connect]
  by (simp add: hook_eval sendMessage_def)

subsection \<open>Shutdown\<close>

text \<open>
  \<^verbatim>\<open>disconnect\<close> clears the timeout that the close handler has just scheduled, and the
  cancelled timeout cannot fire.
\<close>

lemma disconnect_cancels_retry:
  assumes "timeouts h = []" "i < length (sockets h)" "readyState (sockets h ! i) \<noteq> CLOSED"
  shows "timeouts (step Disconnect (step (SocketClosed i) h)) = []"
  using assms
  by (simp add: step_def heartbeat_effect_def onclose_def Let_def set_readyState_def disconnect_def
      clearTimeout_def split: option.splits)

lemma useWebSocket_close_then_disconnect:
  "timeouts (run [Connect, SocketOpened 0, SocketClosed 0, Disconnect] (hook_init True)) = []
   \<and> map readyState (sockets (run [Connect, SocketOpened 0, SocketClosed 0, Disconnect] (hook_init True)))
       = [CLOSED]
   \<and> run [TimeoutFired 1] (run [Connect, SocketOpened 0, SocketClosed 0, Disconnect] (hook_init True))
       = run [Connect, SocketOpened 0, SocketClosed 0, Disconnect] (hook_init True)"
  by (simp add: hook_eval disconnect_def socket_close_def)

section \<open>Properties of the Control Tower's connection effect\<close>

lemma cleanup_dashboard_keeps_timeouts:
  "timeouts_dashboard (cleanup_dashboard d) = timeouts_dashboard d"
  by (simp add: cleanup_dashboard_def split: option.splits)

text \<open>
  Claim C3. The Control Tower's socket opens and closes, so that the close handler
  schedules its retry, and the component unmounts before the three seconds are over.
  The cleanup leaves the retry scheduled, on a socket that is closed; when the retry
  fires, a new socket is constructed and starts connecting. (The World Viewer's
  \<^verbatim>\<open>disconnect\<close> cancels its retry, see \<open>disconnect_cancels_retry\<close>.)
\<close>

theorem dashboard_retry_survives_unmount:
  "timeouts_dashboard (run_dashboard [DashMount, DashSocketOpened 0, DashSocketClosed 0, DashUnmount]
       dashboard_init) = [dashboardReconnectDelay]
   \<and> map readyState (sockets_dashboard
         (run_dashboard [DashMount, DashSocketOpened 0, DashSocketClosed 0, DashUnmount]
            dashboard_init)) = [CLOSED]
   \<and> map readyState (sockets_dashboard
         (run_dashboard [DashMount, DashSocketOpened 0, DashSocketClosed 0, DashUnmount, DashTimeoutFired]
            dashboard_init)) = [CLOSED, CONNECTING]"
  by (simp add: dashboard_init_def connectWebSocket_def new_socket_def onopen_dashboard_def
      set_readyState_dashboard_def socket_send_def onclose_dashboard_def cleanup_dashboard_def
      socket_close_def)

end
